theory Spec2Isabelle
  imports Main "HOL-Library.Sublist"
begin

section \<open>Shared data\<close>

text \<open>
  A Go \<open>error\<close> is modelled by its message: \<open>None\<close> is \<open>nil\<close>. A Go function that can
  panic returns an \<open>outcome\<close>. A Go \<open>map[string]string\<close> is an association list read with
  \<open>mapIndex\<close>, which gives the empty string for a missing key as Go's index expression does.
\<close>

type_synonym goError = "string option"

datatype 'a outcome = Panic | Return 'a

definition mapIndex :: "(string \<times> string) list \<Rightarrow> string \<Rightarrow> string" where
  "mapIndex m k = (case map_of m k of None \<Rightarrow> [] | Some v \<Rightarrow> v)"

text \<open>\<open>strings.Contains s substr\<close> of the Go standard library.\<close>

fun containsStr :: "string \<Rightarrow> string \<Rightarrow> bool" where
  "containsStr [] sub = (sub = [])"
| "containsStr (c # cs) sub = (prefix sub (c # cs) \<or> containsStr cs sub)"

text \<open>
  The named constants of the packages \<open>config\<close>, \<open>crv1\<close>, \<open>msgs\<close> and \<open>apiserver\<close> are
  declared outside the two source files; they are parameters of the model.
  \<open>fmtErrMessagePVCSize a b\<close> stands for \<open>fmt.Errorf(apiserver.ErrMessagePVCSize, a, b)\<close>.
\<close>

record config =
  LABEL_PGBOUNCER :: string
  LABEL_PGBOUNCER_ROTATE_PASSWORD :: string
  LABEL_PGBOUNCER_TASK_CLUSTER :: string
  DEFAULT_PATRONI_PORT :: string
  LABEL_PG_CLUSTER :: string
  LABEL_PGO_BACKREST_REPO :: string
  ANNOTATION_IS_UPGRADED :: string
  ANNOTATIONS_FALSE :: string
  UpgradeError :: string
  LABEL_PGO_CLONE :: string
  LABEL_PGO_CLONE_STEP_1 :: string
  LABEL_BACKREST_STORAGE_TYPE :: string
  CompletedStatus :: string
  PgtaskCloneStep1 :: string
  PgtaskWorkflow :: string
  PgtaskWorkflowID :: string
  PgtaskWorkflowCloneType :: string
  PgtaskWorkflowSubmittedStatus :: string
  fmtErrMessagePVCSize :: "string \<Rightarrow> string \<Rightarrow> string"

record Pgcluster =
  cluster_Name :: string
  cluster_Namespace :: string
  cluster_Labels :: "(string \<times> string) list"
  cluster_Annotations :: "(string \<times> string) list"
  cluster_UserLabels :: "(string \<times> string) list"

section \<open>Promotion handlers (controller/pod/promotionhandler.go)\<close>

record Pod =
  podName :: string
  podNamespace :: string
  podContainers :: "string list"

text \<open>One call of \<open>kubeapi.ExecToPodThroughAPI\<close>: the command, the container, the pod, the namespace.\<close>

record execCall =
  execCmd :: "string list"
  execContainer :: string
  execPod :: string
  execNamespace :: string

text \<open>
  What a value decoded by \<open>encoding/json\<close> into an \<open>interface{}\<close> can be. The decoder is
  the standard library's: \<open>jsonUnmarshal\<close> below is \<open>None\<close> when \<open>json.Unmarshal\<close> leaves the
  map \<open>nil\<close> (an error, or the JSON \<open>null\<close>), and the decoded object otherwise.
\<close>

datatype jvalue = JNil | JBool bool | JNum int | JStr string | JArr "jvalue list"
  | JObj "(string \<times> jvalue) list"

definition jIndex :: "(string \<times> jvalue) list option \<Rightarrow> string \<Rightarrow> jvalue" where
  "jIndex m k = (case m of None \<Rightarrow> JNil
     | Some kv \<Rightarrow> (case map_of kv k of None \<Rightarrow> JNil | Some v \<Rightarrow> v))"

text \<open>The external calls a handler makes, in the order it makes them.\<close>

datatype event =
    EvExec execCall
  | EvGetPods string string
  | EvCreatePgTaskforUpdatepgBouncer string string "(string \<times> string) list"
  | EvCleanBackupResources string string
  | EvCreatePostFailoverBackup string string string

text \<open>
  The collaborators of the handlers: \<open>kubeapi.GetPods\<close> (the pod list and the error it
  returns together), \<open>backrest.CleanBackupResources\<close>, \<open>backrest.CreatePostFailoverBackup\<close>
  (its error), \<open>clusteroperator.CreatePgTaskforUpdatepgBouncer\<close> and \<open>json.Unmarshal\<close>.
\<close>

record promoEnv =
  getPods :: "string \<Rightarrow> string \<Rightarrow> Pod list \<times> goError"
  cleanBackupResources :: "string \<Rightarrow> string \<Rightarrow> goError"
  createPostFailoverBackup :: "string \<Rightarrow> string \<Rightarrow> string \<Rightarrow> goError"
  createPgTaskforUpdatepgBouncer :: "Pgcluster \<Rightarrow> string \<Rightarrow> (string \<times> string) list \<Rightarrow> goError"
  jsonUnmarshal :: "string \<Rightarrow> (string \<times> jvalue) list option"

subsection \<open>waitForStandbyPromotion\<close>

definition isInRecoveryCMD :: "string list" where
  "isInRecoveryCMD = [''psql'', ''-t'', ''-c'', ''select pg_is_in_recovery()'']"

definition leaderStatusCMD :: "config \<Rightarrow> string list" where
  "leaderStatusCMD cfg = [''curl'', ''localhost:'' @ DEFAULT_PATRONI_PORT cfg @ ''/master'']"

text \<open>
  The state of one wait: the local variable \<open>recoveryDisabled\<close>, and the commands executed
  so far. A \<open>responder\<close> is the pod as it answers during one tick: the stdout of a command
  (the stderr and the error of \<open>ExecToPodThroughAPI\<close> are discarded by the source).
\<close>

record waitState =
  recoveryDisabled :: bool
  execLog :: "execCall list"

type_synonym responder = "execCall \<Rightarrow> string"

datatype control = Continue | ReturnNil | Panicked

text \<open>Lines 115-122: the block \<open>if !recoveryDisabled\<close>. \<open>Containers[0]\<close> panics on a pod without containers.\<close>

definition recoveryCheck :: "Pod \<Rightarrow> responder \<Rightarrow> waitState \<Rightarrow> waitState outcome" where
  "recoveryCheck newPod r s =
     (if \<not> recoveryDisabled s then
        (case podContainers newPod of
           [] \<Rightarrow> Panic
         | c # _ \<Rightarrow>
            (let call = \<lparr>execCmd = isInRecoveryCMD, execContainer = c,
                         execPod = podName newPod, execNamespace = podNamespace newPod\<rparr>;
                 isInRecoveryStr = r call;
                 s1 = s\<lparr>execLog := execLog s @ [call]\<rparr>
             in Return (if containsStr isInRecoveryStr ''f''
                        then s1\<lparr>recoveryDisabled := True\<rparr> else s1)))
      else Return s)"

text \<open>
  Lines 123-133: the block \<open>if recoveryDisabled\<close>. The type assertion \<open>.(bool)\<close> is reached
  only when \<open>state\<close> is \<open>"running"\<close> and \<open>pending_restart\<close> is not \<open>nil\<close>, and panics on a value
  that is not a \<open>bool\<close>.
\<close>

definition leaderCheck :: "config \<Rightarrow> promoEnv \<Rightarrow> Pod \<Rightarrow> responder \<Rightarrow> waitState \<Rightarrow> control \<times> waitState" where
  "leaderCheck cfg env newPod r s =
     (if recoveryDisabled s then
        (case podContainers newPod of
           [] \<Rightarrow> (Panicked, s)
         | c # _ \<Rightarrow>
            (let call = \<lparr>execCmd = leaderStatusCMD cfg, execContainer = c,
                         execPod = podName newPod, execNamespace = podNamespace newPod\<rparr>;
                 primaryJSONStr = r call;
                 s1 = s\<lparr>execLog := execLog s @ [call]\<rparr>;
                 primaryJSON = jsonUnmarshal env primaryJSONStr
             in if jIndex primaryJSON ''state'' = JStr ''running'' then
                  (if jIndex primaryJSON ''pending_restart'' = JNil then (ReturnNil, s1)
                   else (case jIndex primaryJSON ''pending_restart'' of
                           JBool b \<Rightarrow> (if \<not> b then (ReturnNil, s1) else (Continue, s1))
                         | _ \<Rightarrow> (Panicked, s1)))
                else (Continue, s1)))
      else (Continue, s))"

text \<open>The body of \<open>case <-tick\<close>: both blocks, in the source's order.\<close>

definition tick :: "config \<Rightarrow> promoEnv \<Rightarrow> Pod \<Rightarrow> responder \<Rightarrow> waitState \<Rightarrow> control \<times> waitState" where
  "tick cfg env newPod r s =
     (case recoveryCheck newPod r s of
        Panic \<Rightarrow> (Panicked, s)
      | Return s1 \<Rightarrow> leaderCheck cfg env newPod r s1)"

definition timedOutMsg :: "Pgcluster \<Rightarrow> string" where
  "timedOutMsg cluster = ''timed out waiting for cluster '' @ cluster_Name cluster @
     '' to accept writes after disabling standby mode''"

text \<open>
  The \<open>for { select { ... } }\<close> loop. The list holds the pod's answers for the ticks that the
  \<open>select\<close> delivers before it takes the \<open>duration\<close> case; when the list is used up the
  \<open>duration\<close> case is taken.
\<close>

fun waitLoop :: "config \<Rightarrow> promoEnv \<Rightarrow> Pod \<Rightarrow> Pgcluster \<Rightarrow> responder list \<Rightarrow> waitState
    \<Rightarrow> goError outcome \<times> waitState" where
  "waitLoop cfg env newPod cluster [] s = (Return (Some (timedOutMsg cluster)), s)"
| "waitLoop cfg env newPod cluster (r # rs) s =
     (case tick cfg env newPod r s of
        (Panicked, s') \<Rightarrow> (Panic, s')
      | (ReturnNil, s') \<Rightarrow> (Return None, s')
      | (Continue, s') \<Rightarrow> waitLoop cfg env newPod cluster rs s')"

definition waitForStandbyPromotion :: "config \<Rightarrow> promoEnv \<Rightarrow> Pod \<Rightarrow> Pgcluster \<Rightarrow> responder list
    \<Rightarrow> goError outcome \<times> execCall list" where
  "waitForStandbyPromotion cfg env newPod cluster rs =
     (case waitLoop cfg env newPod cluster rs \<lparr>recoveryDisabled = False, execLog = []\<rparr> of
        (res, s) \<Rightarrow> (res, execLog s))"

text \<open>
  The states of a wait after each tick it runs, in order: the history of the loop that
  \<open>waitLoop\<close> walks through, kept for the statements about a whole wait.
\<close>

fun waitTrace :: "config \<Rightarrow> promoEnv \<Rightarrow> Pod \<Rightarrow> responder list \<Rightarrow> waitState \<Rightarrow> waitState list" where
  "waitTrace cfg env newPod [] s = []"
| "waitTrace cfg env newPod (r # rs) s =
     (case tick cfg env newPod r s of
        (Continue, s') \<Rightarrow> s' # waitTrace cfg env newPod rs s'
      | (_, s') \<Rightarrow> [s'])"

definition isRecoveryProbe :: "execCall \<Rightarrow> bool" where
  "isRecoveryProbe c = (execCmd c = isInRecoveryCMD)"

subsection \<open>cleanAndCreatePostFailoverBackup\<close>

definition podsLenMsg :: "string \<Rightarrow> string" where
  "podsLenMsg clusterName = ''pods len != 1 for cluster '' @ clusterName"

definition backrestRepoSelector :: "config \<Rightarrow> string \<Rightarrow> string" where
  "backrestRepoSelector cfg clusterName =
     LABEL_PG_CLUSTER cfg @ ''='' @ clusterName @ '','' @ LABEL_PGO_BACKREST_REPO cfg @ ''=true''"

text \<open>
  \<open>pods\<close> is \<open>pods.Items\<close>; the count is tested before the error of the lookup, as in
  the source, and \<open>pods ! 0\<close> is read only when the list has one element.
\<close>

definition cleanAndCreatePostFailoverBackup :: "config \<Rightarrow> promoEnv \<Rightarrow> string \<Rightarrow> string
    \<Rightarrow> goError \<times> event list" where
  "cleanAndCreatePostFailoverBackup cfg env clusterName namespace =
     (let selector = backrestRepoSelector cfg clusterName;
          (pods, err) = getPods env selector namespace;
          ev0 = [EvGetPods selector namespace]
      in if length pods \<noteq> 1 then (Some (podsLenMsg clusterName), ev0)
         else if err \<noteq> None then (err, ev0)
         else
           (let ev1 = ev0 @ [EvCleanBackupResources namespace clusterName]
            in case cleanBackupResources env namespace clusterName of
                 Some e \<Rightarrow> (Some e, ev1)
               | None \<Rightarrow>
                  (let ev2 = ev1 @ [EvCreatePostFailoverBackup namespace clusterName
                                      (podName (pods ! 0))]
                   in case createPostFailoverBackup env namespace clusterName (podName (pods ! 0)) of
                        Some e \<Rightarrow> (Some e, ev2)
                      | None \<Rightarrow> (None, ev2))))"

subsection \<open>The handlers\<close>

definition handlePostgresPodPromotion :: "config \<Rightarrow> promoEnv \<Rightarrow> Pod \<Rightarrow> string \<Rightarrow> goError \<times> event list" where
  "handlePostgresPodPromotion cfg env newPod clusterName =
     cleanAndCreatePostFailoverBackup cfg env clusterName (podNamespace newPod)"

definition rotateParameters :: "config \<Rightarrow> Pgcluster \<Rightarrow> (string \<times> string) list" where
  "rotateParameters cfg cluster =
     [(LABEL_PGBOUNCER_ROTATE_PASSWORD cfg, ''true''),
      (LABEL_PGBOUNCER_TASK_CLUSTER cfg, cluster_Name cluster)]"

definition handleStandbyPromotion :: "config \<Rightarrow> promoEnv \<Rightarrow> Pod \<Rightarrow> Pgcluster \<Rightarrow> responder list
    \<Rightarrow> goError outcome \<times> event list" where
  "handleStandbyPromotion cfg env newPod cluster rs =
     (case waitForStandbyPromotion cfg env newPod cluster rs of
        (Panic, log) \<Rightarrow> (Panic, map EvExec log)
      | (Return (Some e), log) \<Rightarrow> (Return (Some e), map EvExec log)
      | (Return None, log) \<Rightarrow>
         (let ev0 = map EvExec log;
              rot = (if mapIndex (cluster_Labels cluster) (LABEL_PGBOUNCER cfg) = ''true''
                     then (createPgTaskforUpdatepgBouncer env cluster [] (rotateParameters cfg cluster),
                           [EvCreatePgTaskforUpdatepgBouncer (cluster_Name cluster) []
                              (rotateParameters cfg cluster)])
                     else (None, []))
          in case fst rot of
               Some e \<Rightarrow> (Return (Some e), ev0 @ snd rot)
             | None \<Rightarrow>
                (case cleanAndCreatePostFailoverBackup cfg env (cluster_Name cluster)
                        (cluster_Namespace cluster) of
                   (res, evb) \<Rightarrow> (Return res, ev0 @ snd rot @ evb))))"

section \<open>Clone service (cloneservice, the file with \<open>Clone\<close>)\<close>

datatype statusCode = Ok | Error

record CloneRequest =
  req_SourceClusterName :: string
  req_TargetClusterName :: string
  req_PVCSize :: string
  req_BackrestPVCSize :: string
  req_BackrestStorageSource :: string
  req_EnableMetrics :: bool

record CloneResponse =
  StatusCode :: statusCode
  StatusMsg :: string
  resp_TargetClusterName :: string
  resp_WorkflowID :: string

record Pgtask =
  task_Name :: string
  task_Labels :: "(string \<times> string) list"
  spec_Namespace :: string
  spec_Name :: string
  spec_TaskType :: string
  spec_Status :: string
  spec_Parameters :: "(string \<times> string) list"

record CloneTask =
  ct_BackrestPVCSize :: string
  ct_BackrestStorageSource :: string
  ct_EnableMetrics :: bool
  ct_PGOUser :: string
  ct_PVCSize :: string
  ct_SourceClusterName :: string
  ct_TargetClusterName :: string
  ct_TaskStepLabel :: string
  ct_TaskType :: string
  ct_Timestamp :: string
  ct_WorkflowID :: string

text \<open>
  The resource store behind \<open>apiserver.PGOClientset\<close>: its state is any type \<open>'s\<close>, and the
  three calls \<open>Clone\<close> makes are \<open>Pgclusters(namespace).Get(name)\<close>,
  \<open>Pgtasks(namespace).List(selector)\<close> and \<open>Pgtasks(namespace).Create(task)\<close>. A call can
  fail (\<open>Inl\<close> the error's message); only \<open>Create\<close> changes the state.
\<close>

record 's storeOps =
  getPgcluster :: "'s \<Rightarrow> string \<Rightarrow> string \<Rightarrow> string + Pgcluster"
  listPgtasks :: "'s \<Rightarrow> string \<Rightarrow> string \<Rightarrow> string + Pgtask list"
  createPgtask :: "'s \<Rightarrow> string \<Rightarrow> Pgtask \<Rightarrow> string + 's"

datatype storeCall =
    GetPgcluster string string
  | ListPgtasks string string
  | CreatePgtask string Pgtask

text \<open>
  The other collaborators of \<open>Clone\<close>: \<open>apiserver.ValidateQuantity\<close>,
  \<open>util.ValidateBackrestStorageTypeOnBackupRestore\<close>, \<open>util.RandStringBytesRmndr\<close>, what
  \<open>ioutil.ReadFile "/proc/sys/kernel/random/uuid"\<close> returns (\<open>Inl\<close> its error, \<open>Inr\<close> the
  bytes), the two readings of \<open>time.Now()\<close> (in \<open>createWorkflowTask\<close>, formatted, and in
  \<open>Clone\<close>), and the name \<open>CloneTask.Create\<close> gives its task.
\<close>

record cloneEnv =
  validateQuantity :: "string \<Rightarrow> goError"
  validateBackrestStorageTypeOnBackupRestore :: "string \<Rightarrow> string \<Rightarrow> bool \<Rightarrow> goError"
  randStringBytesRmndr :: "nat \<Rightarrow> string"
  readUUIDFile :: "string + string"
  nowWorkflowRFC3339 :: string
  nowClone :: string
  cloneTaskName :: "CloneTask \<Rightarrow> string"

definition validateCloneRequest :: "config \<Rightarrow> cloneEnv \<Rightarrow> CloneRequest \<Rightarrow> Pgcluster \<Rightarrow> goError" where
  "validateCloneRequest cfg env request cluster =
     (if req_SourceClusterName request = [] then Some ''the source cluster name must be set''
      else if req_TargetClusterName request = [] then Some ''the target cluster name must be set''
      else (case validateQuantity env (req_PVCSize request) of
              Some e \<Rightarrow> Some (fmtErrMessagePVCSize cfg (req_PVCSize request) e)
            | None \<Rightarrow>
               (case validateQuantity env (req_BackrestPVCSize request) of
                  Some e \<Rightarrow> Some (fmtErrMessagePVCSize cfg (req_BackrestPVCSize request) e)
                | None \<Rightarrow>
                    validateBackrestStorageTypeOnBackupRestore env
                      (req_BackrestStorageSource request)
                      (mapIndex (cluster_UserLabels cluster) (LABEL_BACKREST_STORAGE_TYPE cfg))
                      True)))"

definition workflowTask :: "config \<Rightarrow> cloneEnv \<Rightarrow> string \<Rightarrow> string \<Rightarrow> string \<Rightarrow> string \<Rightarrow> Pgtask" where
  "workflowTask cfg env targetClusterName uid namespace wid =
     (let taskName = targetClusterName @ ''-'' @ uid @ ''-'' @ PgtaskWorkflowCloneType cfg
      in \<lparr>task_Name = taskName,
          task_Labels = [(LABEL_PG_CLUSTER cfg, targetClusterName), (PgtaskWorkflowID cfg, wid)],
          spec_Namespace = namespace,
          spec_Name = taskName,
          spec_TaskType = PgtaskWorkflow cfg,
          spec_Status = [],
          spec_Parameters =
            [(PgtaskWorkflowSubmittedStatus cfg, nowWorkflowRFC3339 env),
             (LABEL_PG_CLUSTER cfg, targetClusterName),
             (PgtaskWorkflowID cfg, wid)]\<rparr>)"

text \<open>
  \<open>createWorkflowTask\<close> (the source's \<open>id\<close> is \<open>wid\<close> here): \<open>u[:len(u)-1]\<close> panics on
  an empty read. The result is the error
  (\<open>Inl\<close>) or the workflow identifier, with the store and the store calls made.
\<close>

definition createWorkflowTask :: "config \<Rightarrow> cloneEnv \<Rightarrow> 's storeOps \<Rightarrow> 's \<Rightarrow> string \<Rightarrow> string \<Rightarrow> string
    \<Rightarrow> (string + string) outcome \<times> 's \<times> storeCall list" where
  "createWorkflowTask cfg env ops st targetClusterName uid namespace =
     (case readUUIDFile env of
        Inl err \<Rightarrow> (Return (Inl err), st, [])
      | Inr u \<Rightarrow>
         (if u = [] then (Panic, st, [])
          else
            (let wid = butlast u;
                 task = workflowTask cfg env targetClusterName uid namespace wid
             in case createPgtask ops st namespace task of
                  Inl err \<Rightarrow> (Return (Inl err), st, [CreatePgtask namespace task])
                | Inr st' \<Rightarrow> (Return (Inr wid), st', [CreatePgtask namespace task]))))"

text \<open>
  Modelled from the spec: \<open>util.CloneTask.Create\<close> is not among the source files. The spec
  (4.5, step 6) has the first task of the clone chain carry the validated parameters (storage
  sizes, storage source, metrics flag, requesting user, timestamp, workflow identifier) and
  be labelled for the target cluster and this workflow; the clone label is the one the
  conflict check of step 4 selects on. The task's name is left to \<open>cloneTaskName\<close>.
\<close>

definition cloneTaskCreate :: "config \<Rightarrow> cloneEnv \<Rightarrow> CloneTask \<Rightarrow> Pgtask" where
  "cloneTaskCreate cfg env clone =
     \<lparr>task_Name = cloneTaskName env clone,
      task_Labels =
        [(PgtaskWorkflowID cfg, ct_WorkflowID clone),
         (LABEL_PG_CLUSTER cfg, ct_TargetClusterName clone),
         (LABEL_PGO_CLONE cfg, ''true''),
         (ct_TaskStepLabel clone, ''true'')],
      spec_Namespace = [],
      spec_Name = cloneTaskName env clone,
      spec_TaskType = ct_TaskType clone,
      spec_Status = [],
      spec_Parameters =
        [(''backrestPVCSize'', ct_BackrestPVCSize clone),
         (''backrestStorageSource'', ct_BackrestStorageSource clone),
         (''enableMetrics'', if ct_EnableMetrics clone then ''true'' else ''false''),
         (''pgouser'', ct_PGOUser clone),
         (''pvcSize'', ct_PVCSize clone),
         (''sourceClusterName'', ct_SourceClusterName clone),
         (''targetClusterName'', ct_TargetClusterName clone),
         (''timestamp'', ct_Timestamp clone),
         (''workflowID'', ct_WorkflowID clone)]\<rparr>"

definition cloneSelector :: "config \<Rightarrow> string \<Rightarrow> string" where
  "cloneSelector cfg target = LABEL_PGO_CLONE cfg @ ''=true,pg-cluster='' @ target"

definition ongoingMsg :: "string \<Rightarrow> string" where
  "ongoingMsg name = ''Could not clone cluster: there exists an ongoing clone task: ['' @ name @
     '']. If you believe this is an error, try deleting this pgtask CRD.''"

definition errorResponse :: "string \<Rightarrow> CloneResponse" where
  "errorResponse msg =
     \<lparr>StatusCode = Error, StatusMsg = msg, resp_TargetClusterName = [], resp_WorkflowID = []\<rparr>"

definition step1CloneTask :: "config \<Rightarrow> cloneEnv \<Rightarrow> CloneRequest \<Rightarrow> string \<Rightarrow> string \<Rightarrow> CloneTask" where
  "step1CloneTask cfg env request pgouser workflowID =
     \<lparr>ct_BackrestPVCSize = req_BackrestPVCSize request,
      ct_BackrestStorageSource = req_BackrestStorageSource request,
      ct_EnableMetrics = req_EnableMetrics request,
      ct_PGOUser = pgouser,
      ct_PVCSize = req_PVCSize request,
      ct_SourceClusterName = req_SourceClusterName request,
      ct_TargetClusterName = req_TargetClusterName request,
      ct_TaskStepLabel = LABEL_PGO_CLONE_STEP_1 cfg,
      ct_TaskType = PgtaskCloneStep1 cfg,
      ct_Timestamp = nowClone env,
      ct_WorkflowID = workflowID\<rparr>"

text \<open>
  \<open>Clone\<close>, check by check as in the source. The result is the response (or the panic of
  \<open>createWorkflowTask\<close>), the store afterwards, and the store calls in the order made.
\<close>

definition Clone :: "config \<Rightarrow> cloneEnv \<Rightarrow> 's storeOps \<Rightarrow> 's \<Rightarrow> CloneRequest \<Rightarrow> string \<Rightarrow> string
    \<Rightarrow> CloneResponse outcome \<times> 's \<times> storeCall list" where
  "Clone cfg env ops st request namespace pgouser =
     (let c1 = [GetPgcluster namespace (req_SourceClusterName request)]
      in case getPgcluster ops st namespace (req_SourceClusterName request) of
        Inl err \<Rightarrow> (Return (errorResponse (''Could not get cluster: '' @ err)), st, c1)
      | Inr sourcePgcluster \<Rightarrow>
         (case validateCloneRequest cfg env request sourcePgcluster of
            Some err \<Rightarrow> (Return (errorResponse err), st, c1)
          | None \<Rightarrow>
             (if mapIndex (cluster_Annotations sourcePgcluster) (ANNOTATION_IS_UPGRADED cfg)
                   = ANNOTATIONS_FALSE cfg
              then (Return (errorResponse (cluster_Name sourcePgcluster @ UpgradeError cfg)), st, c1)
              else
                (let c2 = c1 @ [GetPgcluster namespace (req_TargetClusterName request)]
                 in case getPgcluster ops st namespace (req_TargetClusterName request) of
                   Inr _ \<Rightarrow>
                     (Return (errorResponse (''Could not clone cluster: '' @
                        req_TargetClusterName request @ '' already exists'')), st, c2)
                 | Inl _ \<Rightarrow>
                    (let selector = cloneSelector cfg (req_TargetClusterName request);
                         c3 = c2 @ [ListPgtasks namespace selector]
                     in case listPgtasks ops st namespace selector of
                       Inl err \<Rightarrow>
                         (Return (errorResponse
                            (''Could not clone cluster: could not validate '' @ err)), st, c3)
                     | Inr items \<Rightarrow>
                        (case find (\<lambda>task. spec_Status task \<noteq> CompletedStatus cfg) items of
                           Some task \<Rightarrow> (Return (errorResponse (ongoingMsg (spec_Name task))), st, c3)
                         | None \<Rightarrow>
                            (let uid = randStringBytesRmndr env 4
                             in case createWorkflowTask cfg env ops st
                                       (req_TargetClusterName request) uid namespace of
                               (Panic, st', cw) \<Rightarrow> (Panic, st', c3 @ cw)
                             | (Return (Inl err), st', cw) \<Rightarrow>
                                 (Return (errorResponse
                                    (''could not create clone workflow task: '' @ err)), st', c3 @ cw)
                             | (Return (Inr workflowID), st', cw) \<Rightarrow>
                                (let task = cloneTaskCreate cfg env
                                              (step1CloneTask cfg env request pgouser workflowID);
                                     c5 = c3 @ cw @ [CreatePgtask namespace task]
                                 in case createPgtask ops st' namespace task of
                                   Inl err \<Rightarrow>
                                     (Return (errorResponse
                                        (''Could not create clone task: '' @ err)), st', c5)
                                 | Inr st'' \<Rightarrow>
                                     (Return \<lparr>StatusCode = Ok, StatusMsg = [],
                                        resp_TargetClusterName = req_TargetClusterName request,
                                        resp_WorkflowID = workflowID\<rparr>, st'', c5)))))))))"

text \<open>The two calls a tick can make, by name.\<close>

definition recoveryCall :: "Pod \<Rightarrow> string \<Rightarrow> execCall" where
  "recoveryCall newPod c = \<lparr>execCmd = isInRecoveryCMD, execContainer = c,
     execPod = podName newPod, execNamespace = podNamespace newPod\<rparr>"

definition leaderCall :: "config \<Rightarrow> Pod \<Rightarrow> string \<Rightarrow> execCall" where
  "leaderCall cfg newPod c = \<lparr>execCmd = leaderStatusCMD cfg, execContainer = c,
     execPod = podName newPod, execNamespace = podNamespace newPod\<rparr>"

section \<open>An in-memory resource store\<close>

text \<open>
  Modelled from the spec: the resource store is a collaborator outside the source files. The
  spec (6) gives it \<open>get\<close>, \<open>list\<close> by label selector and \<open>create\<close>, and requires
  label-selector filtering with AND semantics over exact-match \<open>key=value\<close> pairs; the spec
  (9) asks for an in-memory store to stand in for it. This one instantiates \<open>storeOps\<close> for
  the concrete runs below: clusters and tasks are kept in lists, \<open>create\<close> refuses a name
  already present in the namespace.
\<close>

record memStore =
  ms_clusters :: "Pgcluster list"
  ms_tasks :: "(string \<times> Pgtask) list"

fun splitOn :: "char \<Rightarrow> string \<Rightarrow> string list" where
  "splitOn sep [] = [] # []"
| "splitOn sep (c # cs) =
     (if c = sep then [] # splitOn sep cs
      else (case splitOn sep cs of [] \<Rightarrow> [c] # [] | w # ws \<Rightarrow> (c # w) # ws))"

definition requirementHolds :: "(string \<times> string) list \<Rightarrow> string \<Rightarrow> bool" where
  "requirementHolds labels req =
     (map_of labels (takeWhile (\<lambda>c. c \<noteq> CHR ''='') req)
        = Some (drop 1 (dropWhile (\<lambda>c. c \<noteq> CHR ''='') req)))"

definition selectorMatches :: "string \<Rightarrow> (string \<times> string) list \<Rightarrow> bool" where
  "selectorMatches selector labels =
     list_all (requirementHolds labels) (splitOn CHR '','' selector)"

definition memGet :: "memStore \<Rightarrow> string \<Rightarrow> string \<Rightarrow> string + Pgcluster" where
  "memGet st namespace name =
     (case find (\<lambda>c. cluster_Namespace c = namespace \<and> cluster_Name c = name) (ms_clusters st) of
        None \<Rightarrow> Inl (''pgclusters '' @ name @ '' not found'')
      | Some c \<Rightarrow> Inr c)"

definition memList :: "memStore \<Rightarrow> string \<Rightarrow> string \<Rightarrow> string + Pgtask list" where
  "memList st namespace selector =
     Inr (map snd (filter (\<lambda>(ns, t). ns = namespace \<and> selectorMatches selector (task_Labels t))
                     (ms_tasks st)))"

definition memCreate :: "memStore \<Rightarrow> string \<Rightarrow> Pgtask \<Rightarrow> string + memStore" where
  "memCreate st namespace task =
     (if list_ex (\<lambda>(ns, t). ns = namespace \<and> task_Name t = task_Name task) (ms_tasks st)
      then Inl (''pgtasks '' @ task_Name task @ '' already exists'')
      else Inr (st\<lparr>ms_tasks := ms_tasks st @ [(namespace, task)]\<rparr>))"

definition memStoreOps :: "memStore storeOps" where
  "memStoreOps = \<lparr>getPgcluster = memGet, listPgtasks = memList, createPgtask = memCreate\<rparr>"

section \<open>Concrete instances\<close>

text \<open>
  Values for the constants, a pod, a cluster, collaborators and stores, for the concrete
  runs of the theorems below. \<open>exampleUnmarshal\<close> decodes the three status payloads used and
  rejects everything else.
\<close>

definition exampleConfig :: config where
  "exampleConfig =
     \<lparr>LABEL_PGBOUNCER = ''crunchy-pgbouncer'',
      LABEL_PGBOUNCER_ROTATE_PASSWORD = ''pgbouncer-rotate-password'',
      LABEL_PGBOUNCER_TASK_CLUSTER = ''pgbouncer-cluster'',
      DEFAULT_PATRONI_PORT = ''8009'',
      LABEL_PG_CLUSTER = ''pg-cluster'',
      LABEL_PGO_BACKREST_REPO = ''pgo-backrest-repo'',
      ANNOTATION_IS_UPGRADED = ''is-upgraded'',
      ANNOTATIONS_FALSE = ''false'',
      UpgradeError = '' has not yet been upgraded. Please upgrade the cluster before running this command.'',
      LABEL_PGO_CLONE = ''pgo-clone'',
      LABEL_PGO_CLONE_STEP_1 = ''pgo-clone-step-1'',
      LABEL_BACKREST_STORAGE_TYPE = ''backrest-storage-type'',
      CompletedStatus = ''completed'',
      PgtaskCloneStep1 = ''clone-step1'',
      PgtaskWorkflow = ''workflow'',
      PgtaskWorkflowID = ''workflowid'',
      PgtaskWorkflowCloneType = ''cloneworkflow'',
      PgtaskWorkflowSubmittedStatus = ''task submitted'',
      fmtErrMessagePVCSize = (\<lambda>a b. ''could not parse PVC size '' @ a @ '': '' @ b)\<rparr>"

definition examplePod :: Pod where
  "examplePod = \<lparr>podName = ''hippo-7d9c'', podNamespace = ''pgo'', podContainers = [''database'']\<rparr>"

definition exampleUnmarshal :: "string \<Rightarrow> (string \<times> jvalue) list option" where
  \<open>exampleUnmarshal s =
     (if s = ''{"state":"running"}'' then Some [(''state'', JStr ''running'')]
      else if s = ''{"state":"running","pending_restart":"yes"}''
        then Some [(''state'', JStr ''running''), (''pending_restart'', JStr ''yes'')]
      else if s = ''{"state":"starting","pending_restart":1}''
        then Some [(''state'', JStr ''starting''), (''pending_restart'', JNum 1)]
      else None)\<close>

definition exampleCluster :: Pgcluster where
  "exampleCluster =
     \<lparr>cluster_Name = ''hippo'', cluster_Namespace = ''pgo'',
      cluster_Labels = [(''crunchy-pgbouncer'', ''true'')],
      cluster_Annotations = [], cluster_UserLabels = []\<rparr>"

definition exampleRepoPod :: Pod where
  "exampleRepoPod = \<lparr>podName = ''hippo-backrest-shared-repo-5f6b'', podNamespace = ''pgo'',
     podContainers = [''database'']\<rparr>"

definition envOnePod :: promoEnv where
  "envOnePod =
     \<lparr>getPods = (\<lambda>selector namespace. ([exampleRepoPod], None)),
      cleanBackupResources = (\<lambda>namespace clusterName. None),
      createPostFailoverBackup = (\<lambda>namespace clusterName podName. None),
      createPgTaskforUpdatepgBouncer = (\<lambda>cluster s parameters. None),
      jsonUnmarshal = exampleUnmarshal\<rparr>"

definition envCleanFails :: promoEnv where
  "envCleanFails = envOnePod\<lparr>cleanBackupResources := (\<lambda>namespace clusterName. Some ''cleanup failed'')\<rparr>"

definition envLookupFails :: promoEnv where
  "envLookupFails = envOnePod\<lparr>getPods := (\<lambda>selector namespace. ([], Some ''connection refused''))\<rparr>"

definition respStarting :: responder where
  \<open>respStarting call =
     (if execCmd call = isInRecoveryCMD then '' f'' else ''{"state":"starting","pending_restart":1}'')\<close>

definition respRecoveryAgain :: responder where
  \<open>respRecoveryAgain call =
     (if execCmd call = isInRecoveryCMD then '' t'' else ''{"state":"starting","pending_restart":1}'')\<close>

definition respRunning :: responder where
  \<open>respRunning call =
     (if execCmd call = isInRecoveryCMD then '' f'' else ''{"state":"running"}'')\<close>

definition respIllTyped :: responder where
  \<open>respIllTyped call =
     (if execCmd call = isInRecoveryCMD then '' f''
      else ''{"state":"running","pending_restart":"yes"}'')\<close>

definition respGarbage :: responder where
  \<open>respGarbage call =
     (if execCmd call = isInRecoveryCMD then ''failed'' else ''502 Bad Gateway'')\<close>

definition waitStart :: waitState where
  "waitStart = \<lparr>recoveryDisabled = False, execLog = []\<rparr>"

definition exampleCloneEnv :: cloneEnv where
  "exampleCloneEnv =
     \<lparr>validateQuantity = (\<lambda>s. if s = [] \<or> s = ''1Gi'' then None else Some ''quantities must match the regular expression''),
      validateBackrestStorageTypeOnBackupRestore = (\<lambda>source clusterType restore. None),
      randStringBytesRmndr = (\<lambda>n. ''wxyz''),
      readUUIDFile = Inr (''3f2b8c1e-6d4a-4b7e-9a40-1c2d3e4f5a6b'' @ [CHR 0x0A]),
      nowWorkflowRFC3339 = ''2020-05-01T10:00:00Z'',
      nowClone = ''2020-05-01T10:00:01Z'',
      cloneTaskName = (\<lambda>clone. ct_TargetClusterName clone @ ''-'' @ ct_TaskStepLabel clone)\<rparr>"

definition clusterA :: Pgcluster where
  "clusterA = \<lparr>cluster_Name = ''a'', cluster_Namespace = ''pgo'', cluster_Labels = [],
     cluster_Annotations = [(''is-upgraded'', ''true'')], cluster_UserLabels = []\<rparr>"

definition requestAB :: CloneRequest where
  "requestAB = \<lparr>req_SourceClusterName = ''a'', req_TargetClusterName = ''b'',
     req_PVCSize = ''1Gi'', req_BackrestPVCSize = ''1Gi'', req_BackrestStorageSource = [],
     req_EnableMetrics = False\<rparr>"

definition staleWorkflowB :: Pgtask where
  "staleWorkflowB = workflowTask exampleConfig exampleCloneEnv ''b'' ''qrst'' ''pgo''
     ''11111111-2222-3333-4444-555555555555''"

definition pendingCloneB :: Pgtask where
  "pendingCloneB = cloneTaskCreate exampleConfig exampleCloneEnv
     (step1CloneTask exampleConfig exampleCloneEnv requestAB ''admin''
        ''11111111-2222-3333-4444-555555555555'')"

definition newWorkflowB :: Pgtask where
  "newWorkflowB = workflowTask exampleConfig exampleCloneEnv ''b'' ''wxyz'' ''pgo''
     ''3f2b8c1e-6d4a-4b7e-9a40-1c2d3e4f5a6b''"

definition newCloneB :: Pgtask where
  "newCloneB = cloneTaskCreate exampleConfig exampleCloneEnv
     (step1CloneTask exampleConfig exampleCloneEnv requestAB ''admin''
        ''3f2b8c1e-6d4a-4b7e-9a40-1c2d3e4f5a6b'')"

definition storeEmpty :: memStore where
  "storeEmpty = \<lparr>ms_clusters = [clusterA], ms_tasks = []\<rparr>"

definition storeStale :: memStore where
  "storeStale = \<lparr>ms_clusters = [clusterA], ms_tasks = [(''pgo'', staleWorkflowB)]\<rparr>"

definition storePending :: memStore where
  "storePending = \<lparr>ms_clusters = [clusterA],
     ms_tasks = [(''pgo'', staleWorkflowB), (''pgo'', pendingCloneB)]\<rparr>"

section \<open>Properties of the promotion wait\<close>

lemmas ex_defs = exampleConfig_def examplePod_def exampleUnmarshal_def exampleCluster_def
  exampleRepoPod_def envOnePod_def envCleanFails_def envLookupFails_def respStarting_def
  respRecoveryAgain_def respRunning_def respIllTyped_def respGarbage_def waitStart_def
  leaderCall_def recoveryCall_def

lemmas wait_defs = tick_def recoveryCheck_def leaderCheck_def jIndex_def isInRecoveryCMD_def
  leaderStatusCMD_def isRecoveryProbe_def Let_def

lemma containsStr_f: "containsStr s ''f'' \<longleftrightarrow> CHR ''f'' \<in> set s"
  by (induction s) auto

lemma cmds_differ: "leaderStatusCMD cfg \<noteq> isInRecoveryCMD"
  by (simp add: leaderStatusCMD_def isInRecoveryCMD_def)

lemma leaderCheck_keeps:
  "leaderCheck cfg env newPod r s = (c, s') \<Longrightarrow>
     recoveryDisabled s' = recoveryDisabled s \<and>
     filter isRecoveryProbe (execLog s') = filter isRecoveryProbe (execLog s)"
  by (auto simp: leaderCheck_def Let_def isRecoveryProbe_def cmds_differ
      split: if_splits list.splits jvalue.splits)

lemma leaderCheck_flag:
  "leaderCheck cfg env newPod r s = (c, s') \<Longrightarrow> recoveryDisabled s' = recoveryDisabled s"
  using leaderCheck_keeps by blast

lemma tick_keeps:
  "recoveryDisabled s \<Longrightarrow> tick cfg env newPod r s = (c, s') \<Longrightarrow>
     recoveryDisabled s' \<and>
     filter isRecoveryProbe (execLog s') = filter isRecoveryProbe (execLog s)"
  using leaderCheck_keeps [of cfg env newPod r s c s']
  by (simp add: tick_def recoveryCheck_def)

lemma tick_sets_flag:
  assumes "\<not> recoveryDisabled s" and "podContainers newPod = c # cs"
    and "tick cfg env newPod r s = (ctl, s')"
  shows "recoveryDisabled s' = containsStr (r (recoveryCall newPod c)) ''f''"
proof -
  define s1 where "s1 = s\<lparr>execLog := execLog s @ [recoveryCall newPod c]\<rparr>"
  define s2 where "s2 = (if containsStr (r (recoveryCall newPod c)) ''f''
                         then s1\<lparr>recoveryDisabled := True\<rparr> else s1)"
  have "recoveryCheck newPod r s = Return s2"
    using assms(1,2) by (simp add: recoveryCheck_def recoveryCall_def Let_def s1_def s2_def)
  with assms(3) have "leaderCheck cfg env newPod r s2 = (ctl, s')"
    by (simp add: tick_def)
  then have "recoveryDisabled s' = recoveryDisabled s2"
    by (rule leaderCheck_flag)
  also have "\<dots> = containsStr (r (recoveryCall newPod c)) ''f''"
    using assms(1) by (simp add: s1_def s2_def)
  finally show ?thesis .
qed

lemma waitTrace_keeps:
  "recoveryDisabled s \<Longrightarrow> s' \<in> set (waitTrace cfg env newPod rs s) \<Longrightarrow>
     recoveryDisabled s' \<and>
     filter isRecoveryProbe (execLog s') = filter isRecoveryProbe (execLog s)"
proof (induction rs arbitrary: s)
  case Nil
  then show ?case by simp
next
  case (Cons r rs)
  obtain c s1 where t: "tick cfg env newPod r s = (c, s1)" by (cases "tick cfg env newPod r s")
  from tick_keeps [OF Cons.prems(1) t] have k: "recoveryDisabled s1"
    "filter isRecoveryProbe (execLog s1) = filter isRecoveryProbe (execLog s)" by simp_all
  show ?case
  proof (cases "s' = s1")
    case True
    with k show ?thesis by simp
  next
    case False
    with Cons.prems(2) t have "c = Continue" "s' \<in> set (waitTrace cfg env newPod rs s1)"
      by (cases c; simp)+
    with Cons.IH [OF k(1)] k(2) show ?thesis by simp
  qed
qed

text \<open>The history \<open>waitTrace\<close> ends in the state \<open>waitLoop\<close> returns.\<close>

lemma waitLoop_last:
  "snd (waitLoop cfg env newPod cluster rs s) = last (s # waitTrace cfg env newPod rs s)"
proof (induction rs arbitrary: s)
  case Nil
  show ?case by simp
next
  case (Cons r rs)
  obtain c s1 where t: "tick cfg env newPod r s = (c, s1)" by (cases "tick cfg env newPod r s")
  show ?case using t Cons.IH [of s1] by (cases c) simp_all
qed

text \<open>
  When no delivered tick ends the wait, the \<open>duration\<close> case does: the wait returns the
  error that names the cluster.
\<close>

lemma waitLoop_times_out:
  assumes "\<forall>r \<in> set rs. \<forall>s. fst (tick cfg env newPod r s) = Continue"
  shows "fst (waitLoop cfg env newPod cluster rs s) =
           Return (Some (''timed out waiting for cluster '' @ cluster_Name cluster @
             '' to accept writes after disabling standby mode''))"
  using assms
proof (induction rs arbitrary: s)
  case Nil
  show ?case by (simp add: timedOutMsg_def)
next
  case (Cons r rs)
  obtain c s1 where t: "tick cfg env newPod r s = (c, s1)" by (cases "tick cfg env newPod r s")
  with Cons.prems have "c = Continue" by (metis fst_conv list.set_intros(1))
  with t Cons show ?case by simp
qed

text \<open>
  C3. Within one wait, \<open>recoveryDisabled\<close> is monotonic: whatever the pod answers on the
  later ticks (also an is-in-recovery output without an \<open>f\<close>), if the flag is true after tick
  \<open>i\<close> then it is true after every later tick \<open>j\<close>, and the is-in-recovery probe is not
  executed again: the log holds the same is-in-recovery calls after tick \<open>j\<close> as after
  tick \<open>i\<close>.
\<close>

theorem recoveryDisabled_monotonic:
  "i \<le> j \<Longrightarrow> j < length (waitTrace cfg env newPod rs s) \<Longrightarrow>
   recoveryDisabled (waitTrace cfg env newPod rs s ! i) \<Longrightarrow>
     recoveryDisabled (waitTrace cfg env newPod rs s ! j) \<and>
     filter isRecoveryProbe (execLog (waitTrace cfg env newPod rs s ! j)) =
       filter isRecoveryProbe (execLog (waitTrace cfg env newPod rs s ! i))"
proof (induction rs arbitrary: s i j)
  case Nil
  then show ?case by simp
next
  case (Cons r rs)
  obtain c s1 where t: "tick cfg env newPod r s = (c, s1)" by (cases "tick cfg env newPod r s")
  show ?case
  proof (cases "i = j")
    case True
    with Cons.prems show ?thesis by simp
  next
    case False
    with Cons.prems have j: "0 < j" by simp
    with Cons.prems(2) t have c: "c = Continue" by (cases c) simp_all
    have tr: "waitTrace cfg env newPod (r # rs) s = s1 # waitTrace cfg env newPod rs s1"
      using t c by simp
    show ?thesis
    proof (cases i)
      case 0
      with Cons.prems(3) tr have "recoveryDisabled s1" by simp
      moreover have "waitTrace cfg env newPod rs s1 ! (j - 1) \<in> set (waitTrace cfg env newPod rs s1)"
        using Cons.prems(2) j tr by simp
      ultimately show ?thesis
        using waitTrace_keeps [of s1 _ cfg env newPod rs] tr j 0 by simp
    next
      case (Suc i')
      with Cons.prems tr j Cons.IH [of i' "j - 1" s1] show ?thesis
        by (cases j) simp_all
    qed
  qed
qed

theorem recoveryDisabled_monotonic_witness:
  "(0::nat) \<le> 1 \<and>
   1 < length (waitTrace exampleConfig envOnePod examplePod [respStarting, respRecoveryAgain] waitStart) \<and>
   recoveryDisabled (waitTrace exampleConfig envOnePod examplePod [respStarting, respRecoveryAgain] waitStart ! 0) \<and>
   respRecoveryAgain (recoveryCall examplePod ''database'') = '' t'' \<and>
   recoveryDisabled (waitTrace exampleConfig envOnePod examplePod [respStarting, respRecoveryAgain] waitStart ! 1) \<and>
   filter isRecoveryProbe (execLog (waitTrace exampleConfig envOnePod examplePod [respStarting, respRecoveryAgain] waitStart ! 1)) =
     filter isRecoveryProbe (execLog (waitTrace exampleConfig envOnePod examplePod [respStarting, respRecoveryAgain] waitStart ! 0))"
proof -
  have tr: "waitTrace exampleConfig envOnePod examplePod [respStarting, respRecoveryAgain] waitStart =
    [\<lparr>recoveryDisabled = True, execLog = [recoveryCall examplePod ''database'',
        leaderCall exampleConfig examplePod ''database'']\<rparr>,
     \<lparr>recoveryDisabled = True, execLog = [recoveryCall examplePod ''database'',
        leaderCall exampleConfig examplePod ''database'', leaderCall exampleConfig examplePod ''database'']\<rparr>]"
    by (simp add: ex_defs wait_defs)
  have h: "(0::nat) \<le> 1"
    "1 < length (waitTrace exampleConfig envOnePod examplePod [respStarting, respRecoveryAgain] waitStart)"
    "recoveryDisabled (waitTrace exampleConfig envOnePod examplePod [respStarting, respRecoveryAgain] waitStart ! 0)"
    unfolding tr by simp_all
  have r: "respRecoveryAgain (recoveryCall examplePod ''database'') = '' t''"
    by (simp add: ex_defs wait_defs)
  from recoveryDisabled_monotonic [OF h] h r show ?thesis by blast
qed

text \<open>
  C10. On a tick that starts with \<open>recoveryDisabled\<close> false, the flag is true afterwards
  if and only if the stdout of the is-in-recovery probe contains the character \<open>f\<close>
  anywhere (\<open>strings.Contains\<close> with \<open>"f"\<close>); and once such an output has been seen, the
  flag is true after every further tick of the wait.
\<close>

theorem recoveryDisabled_iff_contains_f:
  "\<not> recoveryDisabled s \<Longrightarrow> podContainers newPod = c # cs \<Longrightarrow>
   tick cfg env newPod r s = (ctl, s') \<Longrightarrow>
     (recoveryDisabled s' \<longleftrightarrow> CHR ''f'' \<in> set (r (recoveryCall newPod c))) \<and>
     (CHR ''f'' \<in> set (r (recoveryCall newPod c)) \<longrightarrow>
        (\<forall>s'' \<in> set (waitTrace cfg env newPod rs s'). recoveryDisabled s''))"
proof -
  assume a: "\<not> recoveryDisabled s" "podContainers newPod = c # cs"
    "tick cfg env newPod r s = (ctl, s')"
  have flag: "recoveryDisabled s' \<longleftrightarrow> CHR ''f'' \<in> set (r (recoveryCall newPod c))"
    using tick_sets_flag [OF a] by (simp add: containsStr_f)
  have "recoveryDisabled s''" if "recoveryDisabled s'"
    and "s'' \<in> set (waitTrace cfg env newPod rs s')" for s''
    using waitTrace_keeps [OF that] by simp
  with flag show ?thesis by blast
qed

theorem recoveryDisabled_iff_contains_f_witness:
  "\<not> recoveryDisabled waitStart \<and> podContainers examplePod = [''database''] \<and>
   tick exampleConfig envOnePod examplePod respGarbage waitStart =
     (Continue, \<lparr>recoveryDisabled = True, execLog = [recoveryCall examplePod ''database'',
        leaderCall exampleConfig examplePod ''database'']\<rparr>) \<and>
   respGarbage (recoveryCall examplePod ''database'') = ''failed'' \<and>
   list_all recoveryDisabled (waitTrace exampleConfig envOnePod examplePod [respRecoveryAgain]
       \<lparr>recoveryDisabled = True, execLog = [recoveryCall examplePod ''database'',
        leaderCall exampleConfig examplePod ''database'']\<rparr>)"
proof -
  have h1: "\<not> recoveryDisabled waitStart" by (simp add: waitStart_def)
  have h2: "podContainers examplePod = [''database'']" by (simp add: examplePod_def)
  have h3: "tick exampleConfig envOnePod examplePod respGarbage waitStart =
     (Continue, \<lparr>recoveryDisabled = True, execLog = [recoveryCall examplePod ''database'',
        leaderCall exampleConfig examplePod ''database'']\<rparr>)"
    by (simp add: ex_defs wait_defs)
  have h4: "respGarbage (recoveryCall examplePod ''database'') = ''failed''"
    by (simp add: ex_defs wait_defs)
  from recoveryDisabled_iff_contains_f [OF h1 h2 h3, of "[respRecoveryAgain]"] h1 h2 h3 h4
  show ?thesis by (simp add: list_all_iff)
qed

text \<open>
  C4, as the code has it. On every tick whose status check runs, that is with
  \<open>recoveryDisabled\<close> true when the tick starts or set by the tick's own is-in-recovery
  probe (its output contains \<open>f\<close>): when the status payload does not decode, or its \<open>state\<close>
  is missing or is not the string \<open>"running"\<close>, the tick only logs its calls and the wait
  goes on to the next tick, with no error and no panic; when \<open>state\<close> is \<open>"running"\<close> and
  \<open>pending_restart\<close> is missing or null, the wait returns \<open>nil\<close> at that tick.
\<close>

theorem leader_status_not_ready:
  assumes "podContainers newPod = c # cs"
    and "recoveryDisabled s \<or> CHR ''f'' \<in> set (r (recoveryCall newPod c))"
    and "s0 = (if recoveryDisabled s then s
               else s\<lparr>execLog := execLog s @ [recoveryCall newPod c], recoveryDisabled := True\<rparr>)"
    and "js = jsonUnmarshal env (r (leaderCall cfg newPod c))"
    and "s1 = s0\<lparr>execLog := execLog s0 @ [leaderCall cfg newPod c]\<rparr>"
  shows "((js = None \<or> jIndex js ''state'' \<noteq> JStr ''running'') \<longrightarrow>
            tick cfg env newPod r s = (Continue, s1) \<and>
            waitLoop cfg env newPod cluster (r # rs) s = waitLoop cfg env newPod cluster rs s1) \<and>
         (jIndex js ''state'' = JStr ''running'' \<and> jIndex js ''pending_restart'' = JNil \<longrightarrow>
            tick cfg env newPod r s = (ReturnNil, s1) \<and>
            waitLoop cfg env newPod cluster (r # rs) s = (Return None, s1))"
proof -
  have rc: "recoveryCheck newPod r s = Return s0"
    using assms(1,2,3)
    by (auto simp: recoveryCheck_def recoveryCall_def Let_def containsStr_f)
  have flag: "recoveryDisabled s0" using assms(2,3) by auto
  have t: "tick cfg env newPod r s = leaderCheck cfg env newPod r s0"
    using rc by (simp add: tick_def)
  have l1: "leaderCheck cfg env newPod r s0 = (Continue, s1)"
    if "js = None \<or> jIndex js ''state'' \<noteq> JStr ''running''"
    using that flag assms(1,4,5)
    by (auto simp: leaderCheck_def leaderCall_def Let_def jIndex_def)
  have l2: "leaderCheck cfg env newPod r s0 = (ReturnNil, s1)"
    if "jIndex js ''state'' = JStr ''running''" "jIndex js ''pending_restart'' = JNil"
    using that flag assms(1,4,5)
    by (simp add: leaderCheck_def leaderCall_def Let_def)
  show ?thesis using t l1 l2 by simp
qed

theorem leader_status_not_ready_witness:
  "podContainers examplePod = [''database''] \<and>
   CHR ''f'' \<in> set (respGarbage (recoveryCall examplePod ''database'')) \<and>
   jsonUnmarshal envOnePod (respGarbage (leaderCall exampleConfig examplePod ''database'')) = None \<and>
   tick exampleConfig envOnePod examplePod respGarbage waitStart =
     (Continue, \<lparr>recoveryDisabled = True, execLog = [recoveryCall examplePod ''database'',
        leaderCall exampleConfig examplePod ''database'']\<rparr>) \<and>
   waitLoop exampleConfig envOnePod examplePod exampleCluster [respGarbage, respRunning] waitStart =
     waitLoop exampleConfig envOnePod examplePod exampleCluster [respRunning]
       \<lparr>recoveryDisabled = True, execLog = [recoveryCall examplePod ''database'',
        leaderCall exampleConfig examplePod ''database'']\<rparr>"
proof -
  have h1: "podContainers examplePod = [''database'']" by (simp add: examplePod_def)
  have f: "CHR ''f'' \<in> set (respGarbage (recoveryCall examplePod ''database''))"
    by (simp add: ex_defs wait_defs)
  then have h2: "recoveryDisabled waitStart \<or>
      CHR ''f'' \<in> set (respGarbage (recoveryCall examplePod ''database''))" by simp
  have h4: "jsonUnmarshal envOnePod (respGarbage (leaderCall exampleConfig examplePod ''database'')) = None"
    by (simp add: ex_defs wait_defs)
  have s: "(if recoveryDisabled waitStart then waitStart
            else waitStart\<lparr>execLog := execLog waitStart @ [recoveryCall examplePod ''database''],
                   recoveryDisabled := True\<rparr>) =
           \<lparr>recoveryDisabled = True, execLog = [recoveryCall examplePod ''database'']\<rparr>"
    by (simp add: waitStart_def)
  from leader_status_not_ready [where newPod = examplePod and c = "''database''" and s = waitStart
      and r = respGarbage and env = envOnePod and cfg = exampleConfig
      and cluster = exampleCluster and rs = "[respRunning]", OF h1 h2 refl refl refl] h4
  have "tick exampleConfig envOnePod examplePod respGarbage waitStart =
     (Continue, \<lparr>recoveryDisabled = True, execLog = [recoveryCall examplePod ''database'',
        leaderCall exampleConfig examplePod ''database'']\<rparr>) \<and>
   waitLoop exampleConfig envOnePod examplePod exampleCluster [respGarbage, respRunning] waitStart =
     waitLoop exampleConfig envOnePod examplePod exampleCluster [respRunning]
       \<lparr>recoveryDisabled = True, execLog = [recoveryCall examplePod ''database'',
        leaderCall exampleConfig examplePod ''database'']\<rparr>"
    unfolding s by simp
  with h1 f h4 show ?thesis by blast
qed

text \<open>
  C4 as stated fails: a payload with \<open>state\<close> \<open>"running"\<close> and no \<open>pending_restart\<close> field
  is not treated as "not ready"; the wait returns \<open>nil\<close> on it and the next tick is never run.
\<close>

theorem missing_pending_restart_is_ready:
  "jIndex (jsonUnmarshal envOnePod (respRunning (leaderCall exampleConfig examplePod ''database'')))
      ''pending_restart'' = JNil \<and>
   waitLoop exampleConfig envOnePod examplePod exampleCluster [respRunning, respRunning] waitStart =
     (Return None, \<lparr>recoveryDisabled = True, execLog = [recoveryCall examplePod ''database'',
        leaderCall exampleConfig examplePod ''database'']\<rparr>)"
  by (simp add: ex_defs wait_defs)

text \<open>
  A \<open>pending_restart\<close> that is present and not a boolean, next to \<open>state\<close> \<open>"running"\<close>,
  reaches the unchecked type assertion \<open>.(bool)\<close>: the wait panics.
\<close>

lemma illtyped_pending_restart_panics:
  "jIndex (jsonUnmarshal envOnePod (respIllTyped (leaderCall exampleConfig examplePod ''database'')))
      ''pending_restart'' = JStr ''yes'' \<and>
   waitLoop exampleConfig envOnePod examplePod exampleCluster [respIllTyped, respRunning] waitStart =
     (Panic, \<lparr>recoveryDisabled = True, execLog = [recoveryCall examplePod ''database'',
        leaderCall exampleConfig examplePod ''database'']\<rparr>)"
  by (simp add: ex_defs wait_defs)

section \<open>Properties of the backup orchestration and of the standby handler\<close>

text \<open>
  C2, as the code has it. When the pod lookup returns exactly one pod and no error, cleanup
  is invoked, and creation is invoked after it, for that pod, exactly when cleanup returned
  no error; the result is the first error of the two, or \<open>nil\<close>. When the lookup returns
  zero pods or more than one, neither is invoked and the error
  \<open>pods len != 1 for cluster <name>\<close> is returned.
\<close>

theorem backup_orchestration:
  assumes "getPods env (backrestRepoSelector cfg clusterName) namespace = (pods, err)"
    and "ev0 = EvGetPods (backrestRepoSelector cfg clusterName) namespace"
    and "ev1 = EvCleanBackupResources namespace clusterName"
    and "ev2 = EvCreatePostFailoverBackup namespace clusterName (podName (pods ! 0))"
  shows "(length pods = 1 \<and> err = None \<longrightarrow>
            cleanAndCreatePostFailoverBackup cfg env clusterName namespace =
              (case cleanBackupResources env namespace clusterName of
                 Some e \<Rightarrow> (Some e, [ev0, ev1])
               | None \<Rightarrow> (createPostFailoverBackup env namespace clusterName (podName (pods ! 0)),
                            [ev0, ev1, ev2]))) \<and>
         (length pods \<noteq> 1 \<longrightarrow>
            cleanAndCreatePostFailoverBackup cfg env clusterName namespace =
              (Some (''pods len != 1 for cluster '' @ clusterName), [ev0]))"
  using assms
  by (auto simp: cleanAndCreatePostFailoverBackup_def podsLenMsg_def Let_def
      split: option.splits)

theorem backup_orchestration_witness:
  "length (fst (getPods envOnePod (backrestRepoSelector exampleConfig ''hippo'') ''pgo'')) = 1 \<and>
   snd (getPods envOnePod (backrestRepoSelector exampleConfig ''hippo'') ''pgo'') = None \<and>
   cleanAndCreatePostFailoverBackup exampleConfig envOnePod ''hippo'' ''pgo'' =
     (None, [EvGetPods ''pg-cluster=hippo,pgo-backrest-repo=true'' ''pgo'',
             EvCleanBackupResources ''pgo'' ''hippo'',
             EvCreatePostFailoverBackup ''pgo'' ''hippo'' ''hippo-backrest-shared-repo-5f6b''])"
proof -
  have h: "getPods envOnePod (backrestRepoSelector exampleConfig ''hippo'') ''pgo'' = ([exampleRepoPod], None)"
    by (simp add: envOnePod_def)
  from backup_orchestration [OF h refl refl refl] h
  show ?thesis by (simp add: ex_defs backrestRepoSelector_def)
qed

text \<open>
  C2 as stated fails: with exactly one pod found and a cleanup that returns an error, the
  creation of the post-failover backup is not invoked.
\<close>

theorem cleanup_failure_skips_backup_creation:
  "length (fst (getPods envCleanFails (backrestRepoSelector exampleConfig ''hippo'') ''pgo'')) = 1 \<and>
   cleanAndCreatePostFailoverBackup exampleConfig envCleanFails ''hippo'' ''pgo'' =
     (Some ''cleanup failed'', [EvGetPods ''pg-cluster=hippo,pgo-backrest-repo=true'' ''pgo'',
             EvCleanBackupResources ''pgo'' ''hippo''])"
  by (simp add: ex_defs backrestRepoSelector_def cleanAndCreatePostFailoverBackup_def)

text \<open>
  C9. The pod count is checked before the lookup error: when the lookup returns an error,
  the caller gets the \<open>pods len != 1\<close> message naming the cluster unless the failed lookup
  returned exactly one pod, and only then the lookup's own error; neither cleanup nor
  creation is invoked.
\<close>

theorem pod_count_checked_before_lookup_error:
  "getPods env (backrestRepoSelector cfg clusterName) namespace = (pods, Some e) \<Longrightarrow>
     cleanAndCreatePostFailoverBackup cfg env clusterName namespace =
       (if length pods = 1 then Some e else Some (''pods len != 1 for cluster '' @ clusterName),
        [EvGetPods (backrestRepoSelector cfg clusterName) namespace])"
  by (simp add: cleanAndCreatePostFailoverBackup_def podsLenMsg_def Let_def)

theorem pod_count_checked_before_lookup_error_witness:
  "getPods envLookupFails (backrestRepoSelector exampleConfig ''hippo'') ''pgo'' =
     ([], Some ''connection refused'') \<and>
   cleanAndCreatePostFailoverBackup exampleConfig envLookupFails ''hippo'' ''pgo'' =
     (Some ''pods len != 1 for cluster hippo'',
      [EvGetPods ''pg-cluster=hippo,pgo-backrest-repo=true'' ''pgo''])"
proof -
  have h: "getPods envLookupFails (backrestRepoSelector exampleConfig ''hippo'') ''pgo'' =
     ([], Some ''connection refused'')"
    by (simp add: envLookupFails_def envOnePod_def)
  from pod_count_checked_before_lookup_error [OF h] h
  show ?thesis by (simp add: ex_defs backrestRepoSelector_def)
qed

text \<open>
  C6. The standby handler runs the promotion wait; then, only if the cluster's label
  \<open>LABEL_PGBOUNCER\<close> is \<open>"true"\<close>, creates the rotation task with the parameters
  \<open>LABEL_PGBOUNCER_ROTATE_PASSWORD = "true"\<close> and \<open>LABEL_PGBOUNCER_TASK_CLUSTER = <name>\<close>;
  then runs the backup orchestration. The external calls appear in that order, and the first
  step that returns an error ends the handler with that error, no later step being run.
\<close>

theorem standby_promotion_order:
  assumes "waitForStandbyPromotion cfg env newPod cluster rs = (w, log)"
    and "cleanAndCreatePostFailoverBackup cfg env (cluster_Name cluster) (cluster_Namespace cluster)
           = (b, evb)"
    and "parameters = [(LABEL_PGBOUNCER_ROTATE_PASSWORD cfg, ''true''),
                       (LABEL_PGBOUNCER_TASK_CLUSTER cfg, cluster_Name cluster)]"
  shows "handleStandbyPromotion cfg env newPod cluster rs =
    (case w of
       Panic \<Rightarrow> (Panic, map EvExec log)
     | Return (Some e) \<Rightarrow> (Return (Some e), map EvExec log)
     | Return None \<Rightarrow>
        (if mapIndex (cluster_Labels cluster) (LABEL_PGBOUNCER cfg) = ''true'' then
           (case createPgTaskforUpdatepgBouncer env cluster [] parameters of
              Some e \<Rightarrow> (Return (Some e),
                 map EvExec log @ [EvCreatePgTaskforUpdatepgBouncer (cluster_Name cluster) [] parameters])
            | None \<Rightarrow> (Return b,
                 map EvExec log @ [EvCreatePgTaskforUpdatepgBouncer (cluster_Name cluster) [] parameters]
                   @ evb))
         else (Return b, map EvExec log @ evb)))"
proof (cases w)
  case Panic
  with assms(1) show ?thesis by (simp add: handleStandbyPromotion_def)
next
  case (Return res)
  show ?thesis
  proof (cases res)
    case (Some e)
    with Return assms(1) show ?thesis by (simp add: handleStandbyPromotion_def)
  next
    case None
    with Return assms show ?thesis
      by (simp add: handleStandbyPromotion_def rotateParameters_def Let_def split: option.splits)
  qed
qed

theorem standby_promotion_order_witness:
  "waitForStandbyPromotion exampleConfig envOnePod examplePod exampleCluster [respRunning] =
     (Return None, [recoveryCall examplePod ''database'', leaderCall exampleConfig examplePod ''database'']) \<and>
   handleStandbyPromotion exampleConfig envOnePod examplePod exampleCluster [respRunning] =
     (Return None,
      [EvExec (recoveryCall examplePod ''database''),
       EvExec (leaderCall exampleConfig examplePod ''database''),
       EvCreatePgTaskforUpdatepgBouncer ''hippo'' []
         [(''pgbouncer-rotate-password'', ''true''), (''pgbouncer-cluster'', ''hippo'')],
       EvGetPods ''pg-cluster=hippo,pgo-backrest-repo=true'' ''pgo'',
       EvCleanBackupResources ''pgo'' ''hippo'',
       EvCreatePostFailoverBackup ''pgo'' ''hippo'' ''hippo-backrest-shared-repo-5f6b''])"
proof -
  have h1: "waitForStandbyPromotion exampleConfig envOnePod examplePod exampleCluster [respRunning] =
     (Return None, [recoveryCall examplePod ''database'', leaderCall exampleConfig examplePod ''database''])"
    by (simp add: waitForStandbyPromotion_def ex_defs wait_defs)
  have h2: "cleanAndCreatePostFailoverBackup exampleConfig envOnePod (cluster_Name exampleCluster)
      (cluster_Namespace exampleCluster) =
     (None, [EvGetPods ''pg-cluster=hippo,pgo-backrest-repo=true'' ''pgo'',
       EvCleanBackupResources ''pgo'' ''hippo'',
       EvCreatePostFailoverBackup ''pgo'' ''hippo'' ''hippo-backrest-shared-repo-5f6b''])"
    by (simp add: ex_defs backrestRepoSelector_def cleanAndCreatePostFailoverBackup_def)
  from standby_promotion_order [OF h1 h2 refl] h1
  show ?thesis by (simp add: ex_defs mapIndex_def)
qed

section \<open>Properties of Clone\<close>

lemmas clone_ex_defs = exampleConfig_def exampleCloneEnv_def clusterA_def requestAB_def
  staleWorkflowB_def pendingCloneB_def storeEmpty_def storeStale_def storePending_def
  memStoreOps_def memGet_def memList_def memCreate_def selectorMatches_def requirementHolds_def
  workflowTask_def cloneTaskCreate_def step1CloneTask_def cloneSelector_def

lemma validate_empty_target:
  "req_TargetClusterName request = [] \<Longrightarrow>
     validateCloneRequest cfg env request cluster =
       Some (if req_SourceClusterName request = [] then ''the source cluster name must be set''
             else ''the target cluster name must be set'')"
  by (simp add: validateCloneRequest_def)




lemma Clone_success_path:
  assumes "getPgcluster ops st namespace (req_SourceClusterName request) = Inr sourcePgcluster"
    and "validateCloneRequest cfg env request sourcePgcluster = None"
    and "mapIndex (cluster_Annotations sourcePgcluster) (ANNOTATION_IS_UPGRADED cfg)
           \<noteq> ANNOTATIONS_FALSE cfg"
    and "getPgcluster ops st namespace (req_TargetClusterName request) = Inl e"
    and "listPgtasks ops st namespace (cloneSelector cfg (req_TargetClusterName request)) = Inr items"
    and "\<forall>t \<in> set items. spec_Status t = CompletedStatus cfg"
    and "readUUIDFile env = Inr u" and "u \<noteq> []"
    and "wtask = workflowTask cfg env (req_TargetClusterName request) (randStringBytesRmndr env 4)
                namespace (butlast u)"
    and "createPgtask ops st namespace wtask = Inr st1"
    and "ctask = cloneTaskCreate cfg env (step1CloneTask cfg env request pgouser (butlast u))"
    and "createPgtask ops st1 namespace ctask = Inr st2"
  shows "Clone cfg env ops st request namespace pgouser =
           (Return \<lparr>StatusCode = Ok, StatusMsg = [],
                     resp_TargetClusterName = req_TargetClusterName request,
                     resp_WorkflowID = butlast u\<rparr>, st2,
            [GetPgcluster namespace (req_SourceClusterName request),
             GetPgcluster namespace (req_TargetClusterName request),
             ListPgtasks namespace (cloneSelector cfg (req_TargetClusterName request)),
             CreatePgtask namespace wtask, CreatePgtask namespace ctask])"
proof -
  from assms(6) have nf: "find (\<lambda>task. spec_Status task \<noteq> CompletedStatus cfg) items = None"
    by (simp add: find_None_iff)
  have cw: "createWorkflowTask cfg env ops st (req_TargetClusterName request)
              (randStringBytesRmndr env 4) namespace =
            (Return (Inr (butlast u)), st1, [CreatePgtask namespace wtask])"
    using assms(7,8,10) assms(9) [symmetric] by (simp add: createWorkflowTask_def Let_def)
  show ?thesis
    using assms(1-5) nf cw assms(12) assms(11) [symmetric] by (simp add: Clone_def Let_def)
qed

text \<open>Concrete facts about the example stores, for the runs below.\<close>

lemma ex_get_a: "getPgcluster memStoreOps st ''pgo'' ''a'' = Inr clusterA"
  if "ms_clusters st = [clusterA]"
  using that by (simp add: memStoreOps_def memGet_def clusterA_def)

lemma ex_get_b: "getPgcluster memStoreOps st ''pgo'' ''b'' = Inl ''pgclusters b not found''"
  if "ms_clusters st = [clusterA]"
  using that by (simp add: memStoreOps_def memGet_def clusterA_def)

lemma ex_validate: "validateCloneRequest exampleConfig exampleCloneEnv requestAB clusterA = None"
  by (simp add: validateCloneRequest_def exampleCloneEnv_def requestAB_def)

lemma ex_upgraded:
  "mapIndex (cluster_Annotations clusterA) (ANNOTATION_IS_UPGRADED exampleConfig)
     \<noteq> ANNOTATIONS_FALSE exampleConfig"
  by (simp add: mapIndex_def clusterA_def exampleConfig_def)

lemma ex_selector: "cloneSelector exampleConfig ''b'' = ''pgo-clone=true,pg-cluster=b''"
  by (simp add: cloneSelector_def exampleConfig_def)

lemma ex_split: "splitOn CHR '','' ''pgo-clone=true,pg-cluster=b'' = [''pgo-clone=true'', ''pg-cluster=b'']"
  by simp

lemma ex_match_workflow:
  "selectorMatches ''pgo-clone=true,pg-cluster=b'' (task_Labels staleWorkflowB) = False"
  unfolding selectorMatches_def ex_split
  by (simp add: requirementHolds_def staleWorkflowB_def workflowTask_def Let_def exampleConfig_def)


lemma ex_list_empty: "listPgtasks memStoreOps storeEmpty ''pgo'' (cloneSelector exampleConfig ''b'') = Inr []"
  by (simp add: memStoreOps_def memList_def storeEmpty_def)

lemma ex_list_stale: "listPgtasks memStoreOps storeStale ''pgo'' (cloneSelector exampleConfig ''b'') = Inr []"
  by (simp add: memStoreOps_def memList_def storeStale_def ex_selector ex_match_workflow)




lemma ex_uuid: "readUUIDFile exampleCloneEnv = Inr (''3f2b8c1e-6d4a-4b7e-9a40-1c2d3e4f5a6b'' @ [CHR 0x0A])"
  by (simp add: exampleCloneEnv_def)

lemma ex_names:
  "task_Name newWorkflowB = ''b-wxyz-cloneworkflow''"
  "task_Name staleWorkflowB = ''b-qrst-cloneworkflow''"
  "task_Name newCloneB = ''b-pgo-clone-step-1''"
  by (simp_all add: newWorkflowB_def staleWorkflowB_def newCloneB_def workflowTask_def Let_def
      cloneTaskCreate_def step1CloneTask_def exampleCloneEnv_def requestAB_def exampleConfig_def)

lemma ex_create_wf_empty:
  "createPgtask memStoreOps storeEmpty ''pgo'' newWorkflowB =
     Inr (storeEmpty\<lparr>ms_tasks := [(''pgo'', newWorkflowB)]\<rparr>)"
  by (simp add: memStoreOps_def memCreate_def storeEmpty_def)

lemma ex_create_clone_empty:
  "createPgtask memStoreOps (storeEmpty\<lparr>ms_tasks := [(''pgo'', newWorkflowB)]\<rparr>) ''pgo'' newCloneB =
     Inr (storeEmpty\<lparr>ms_tasks := [(''pgo'', newWorkflowB), (''pgo'', newCloneB)]\<rparr>)"
  by (simp add: memStoreOps_def memCreate_def storeEmpty_def ex_names)

lemma ex_create_wf_stale:
  "createPgtask memStoreOps storeStale ''pgo'' newWorkflowB =
     Inr (storeStale\<lparr>ms_tasks := [(''pgo'', staleWorkflowB), (''pgo'', newWorkflowB)]\<rparr>)"
  by (simp add: memStoreOps_def memCreate_def storeStale_def ex_names)

lemma ex_create_clone_stale:
  "createPgtask memStoreOps
       (storeStale\<lparr>ms_tasks := [(''pgo'', staleWorkflowB), (''pgo'', newWorkflowB)]\<rparr>) ''pgo'' newCloneB =
     Inr (storeStale\<lparr>ms_tasks := [(''pgo'', staleWorkflowB), (''pgo'', newWorkflowB),
                                   (''pgo'', newCloneB)]\<rparr>)"
  by (simp add: memStoreOps_def memCreate_def storeStale_def ex_names)

lemma ex_request: "req_SourceClusterName requestAB = ''a''" "req_TargetClusterName requestAB = ''b''"
  by (simp_all add: requestAB_def)

lemma ex_new_tasks:
  "newWorkflowB = workflowTask exampleConfig exampleCloneEnv (req_TargetClusterName requestAB)
     (randStringBytesRmndr exampleCloneEnv 4) ''pgo''
     (butlast (''3f2b8c1e-6d4a-4b7e-9a40-1c2d3e4f5a6b'' @ [CHR 0x0A]))"
  "newCloneB = cloneTaskCreate exampleConfig exampleCloneEnv
     (step1CloneTask exampleConfig exampleCloneEnv requestAB ''admin''
        (butlast (''3f2b8c1e-6d4a-4b7e-9a40-1c2d3e4f5a6b'' @ [CHR 0x0A])))"
  by (simp_all add: newWorkflowB_def newCloneB_def ex_request exampleCloneEnv_def)

text \<open>
  C1, as the code has it. A clone request with an empty \<open>TargetClusterName\<close> gets an
  \<open>Error\<close> response; the only store call made is the initial \<open>get\<close> of the source cluster
  (no \<open>list\<close>, no \<open>create\<close>), and the store is unchanged.
\<close>

theorem clone_empty_target_rejected:
  assumes "req_TargetClusterName request = []"
  shows "\<exists>msg. Clone cfg env ops st request namespace pgouser =
           (Return \<lparr>StatusCode = Error, StatusMsg = msg, resp_TargetClusterName = [],
                     resp_WorkflowID = []\<rparr>,
            st, [GetPgcluster namespace (req_SourceClusterName request)])"
proof (cases "getPgcluster ops st namespace (req_SourceClusterName request)")
  case (Inl err)
  then show ?thesis by (simp add: Clone_def errorResponse_def)
next
  case (Inr sourcePgcluster)
  with validate_empty_target [OF assms, of cfg env sourcePgcluster] show ?thesis
    by (simp add: Clone_def errorResponse_def)
qed

theorem clone_empty_target_rejected_witness:
  "req_TargetClusterName (requestAB\<lparr>req_TargetClusterName := []\<rparr>) = [] \<and>
   Clone exampleConfig exampleCloneEnv memStoreOps storeEmpty
       (requestAB\<lparr>req_TargetClusterName := []\<rparr>) ''pgo'' ''admin'' =
     (Return \<lparr>StatusCode = Error, StatusMsg = ''the target cluster name must be set'',
               resp_TargetClusterName = [], resp_WorkflowID = []\<rparr>,
      storeEmpty, [GetPgcluster ''pgo'' ''a''])"
proof -
  have h: "req_TargetClusterName (requestAB\<lparr>req_TargetClusterName := []\<rparr>) = []" by simp
  have src: "req_SourceClusterName (requestAB\<lparr>req_TargetClusterName := []\<rparr>) = ''a''"
    by (simp add: requestAB_def)
  have g: "getPgcluster memStoreOps storeEmpty ''pgo'' ''a'' = Inr clusterA"
    by (simp add: clone_ex_defs)
  from clone_empty_target_rejected [OF h, of exampleConfig exampleCloneEnv memStoreOps storeEmpty
      "''pgo''" "''admin''"]
  obtain msg where m: "Clone exampleConfig exampleCloneEnv memStoreOps storeEmpty
       (requestAB\<lparr>req_TargetClusterName := []\<rparr>) ''pgo'' ''admin'' =
     (Return \<lparr>StatusCode = Error, StatusMsg = msg, resp_TargetClusterName = [],
               resp_WorkflowID = []\<rparr>,
      storeEmpty, [GetPgcluster ''pgo'' (req_SourceClusterName (requestAB\<lparr>req_TargetClusterName := []\<rparr>))])"
    by blast
  have "Clone exampleConfig exampleCloneEnv memStoreOps storeEmpty
       (requestAB\<lparr>req_TargetClusterName := []\<rparr>) ''pgo'' ''admin'' =
     (Return (errorResponse ''the target cluster name must be set''), storeEmpty,
      [GetPgcluster ''pgo'' ''a''])"
    using g src validate_empty_target [OF h, of exampleConfig exampleCloneEnv clusterA]
    by (simp add: Clone_def)
  with m h show ?thesis by (simp add: errorResponse_def)
qed

text \<open>
  C1 as stated fails: the request is not rejected before any store call; the source cluster
  is read first.
\<close>

theorem clone_empty_target_reads_store:
  "req_TargetClusterName (requestAB\<lparr>req_TargetClusterName := []\<rparr>) = [] \<and>
   snd (snd (Clone exampleConfig exampleCloneEnv memStoreOps storeEmpty
       (requestAB\<lparr>req_TargetClusterName := []\<rparr>) ''pgo'' ''admin'')) =
     [GetPgcluster ''pgo'' ''a'']"
proof -
  have h: "req_TargetClusterName (requestAB\<lparr>req_TargetClusterName := []\<rparr>) = []" by simp
  have src: "req_SourceClusterName (requestAB\<lparr>req_TargetClusterName := []\<rparr>) = ''a''"
    by (simp add: requestAB_def)
  have g: "getPgcluster memStoreOps storeEmpty ''pgo'' ''a'' = Inr clusterA"
    by (simp add: clone_ex_defs)
  show ?thesis
    using g src validate_empty_target [OF h, of exampleConfig exampleCloneEnv clusterA]
    by (simp add: Clone_def)
qed




text \<open>
  C8, as the code has it (with \<open>CloneTask.Create\<close> as modelled from the spec). When the
  source cluster is found and not flagged as not upgraded, validation passes, the target is
  not found, every listed clone task is completed, the uuid read returns at least two bytes
  and both \<open>create\<close> calls succeed: the response is \<open>Ok\<close> with the request's target and
  the non-empty workflow identifier (the bytes read without the last one), and the request
  makes exactly two \<open>create\<close> calls, first the workflow record and then the clone-step-1
  task, both labelled with that identifier and with the target cluster.
\<close>

theorem clone_creates_workflow_and_task:
  assumes "getPgcluster ops st namespace (req_SourceClusterName request) = Inr sourcePgcluster"
    and "validateCloneRequest cfg env request sourcePgcluster = None"
    and "mapIndex (cluster_Annotations sourcePgcluster) (ANNOTATION_IS_UPGRADED cfg)
           \<noteq> ANNOTATIONS_FALSE cfg"
    and "getPgcluster ops st namespace (req_TargetClusterName request) = Inl e"
    and "listPgtasks ops st namespace (cloneSelector cfg (req_TargetClusterName request)) = Inr items"
    and "\<forall>t \<in> set items. spec_Status t = CompletedStatus cfg"
    and "readUUIDFile env = Inr u" and "2 \<le> length u"
    and "wtask = workflowTask cfg env (req_TargetClusterName request) (randStringBytesRmndr env 4)
                namespace (butlast u)"
    and "createPgtask ops st namespace wtask = Inr st1"
    and "ctask = cloneTaskCreate cfg env (step1CloneTask cfg env request pgouser (butlast u))"
    and "createPgtask ops st1 namespace ctask = Inr st2"
    and "LABEL_PG_CLUSTER cfg \<noteq> PgtaskWorkflowID cfg"
  shows "Clone cfg env ops st request namespace pgouser =
           (Return \<lparr>StatusCode = Ok, StatusMsg = [],
                     resp_TargetClusterName = req_TargetClusterName request,
                     resp_WorkflowID = butlast u\<rparr>, st2,
            [GetPgcluster namespace (req_SourceClusterName request),
             GetPgcluster namespace (req_TargetClusterName request),
             ListPgtasks namespace (cloneSelector cfg (req_TargetClusterName request)),
             CreatePgtask namespace wtask, CreatePgtask namespace ctask]) \<and>
         butlast u \<noteq> [] \<and>
         spec_TaskType wtask = PgtaskWorkflow cfg \<and>
         spec_TaskType ctask = PgtaskCloneStep1 cfg \<and>
         map_of (task_Labels wtask) (PgtaskWorkflowID cfg) = Some (butlast u) \<and>
         map_of (task_Labels ctask) (PgtaskWorkflowID cfg) = Some (butlast u) \<and>
         map_of (task_Labels wtask) (LABEL_PG_CLUSTER cfg) = Some (req_TargetClusterName request) \<and>
         map_of (task_Labels ctask) (LABEL_PG_CLUSTER cfg) = Some (req_TargetClusterName request)"
proof -
  from assms(8) have ne: "u \<noteq> []" by auto
  from assms(8) have "length (butlast u) \<noteq> 0" by simp
  then have wid: "butlast u \<noteq> []" by (simp del: length_butlast)
  have labels: "spec_TaskType wtask = PgtaskWorkflow cfg"
    "spec_TaskType ctask = PgtaskCloneStep1 cfg"
    "map_of (task_Labels wtask) (PgtaskWorkflowID cfg) = Some (butlast u)"
    "map_of (task_Labels ctask) (PgtaskWorkflowID cfg) = Some (butlast u)"
    "map_of (task_Labels wtask) (LABEL_PG_CLUSTER cfg) = Some (req_TargetClusterName request)"
    "map_of (task_Labels ctask) (LABEL_PG_CLUSTER cfg) = Some (req_TargetClusterName request)"
    using assms(13)
    by (simp_all add: assms(9,11) workflowTask_def cloneTaskCreate_def step1CloneTask_def Let_def)
  from Clone_success_path [OF assms(1-7) ne assms(9-12)] wid labels show ?thesis by simp
qed

theorem clone_creates_workflow_and_task_witness:
  "Clone exampleConfig exampleCloneEnv memStoreOps storeEmpty requestAB ''pgo'' ''admin'' =
     (Return \<lparr>StatusCode = Ok, StatusMsg = [], resp_TargetClusterName = ''b'',
        resp_WorkflowID = ''3f2b8c1e-6d4a-4b7e-9a40-1c2d3e4f5a6b''\<rparr>,
      storeEmpty\<lparr>ms_tasks := [(''pgo'', newWorkflowB), (''pgo'', newCloneB)]\<rparr>,
      [GetPgcluster ''pgo'' ''a'', GetPgcluster ''pgo'' ''b'',
       ListPgtasks ''pgo'' ''pgo-clone=true,pg-cluster=b'',
       CreatePgtask ''pgo'' newWorkflowB, CreatePgtask ''pgo'' newCloneB]) \<and>
   map_of (task_Labels newWorkflowB) ''workflowid'' = Some ''3f2b8c1e-6d4a-4b7e-9a40-1c2d3e4f5a6b'' \<and>
   map_of (task_Labels newCloneB) ''workflowid'' = Some ''3f2b8c1e-6d4a-4b7e-9a40-1c2d3e4f5a6b'' \<and>
   spec_TaskType newWorkflowB = ''workflow'' \<and> spec_TaskType newCloneB = ''clone-step1''"
proof -
  have c: "ms_clusters storeEmpty = [clusterA]" by (simp add: storeEmpty_def)
  have h1: "getPgcluster memStoreOps storeEmpty ''pgo'' (req_SourceClusterName requestAB) = Inr clusterA"
    by (simp add: ex_request ex_get_a [OF c])
  have h4: "getPgcluster memStoreOps storeEmpty ''pgo'' (req_TargetClusterName requestAB)
      = Inl ''pgclusters b not found''"
    by (simp add: ex_request ex_get_b [OF c])
  have h5: "listPgtasks memStoreOps storeEmpty ''pgo''
      (cloneSelector exampleConfig (req_TargetClusterName requestAB)) = Inr []"
    by (simp add: ex_request ex_list_empty)
  have h6: "\<forall>t \<in> set []. spec_Status t = CompletedStatus exampleConfig" by simp
  have h8: "2 \<le> length (''3f2b8c1e-6d4a-4b7e-9a40-1c2d3e4f5a6b'' @ [CHR 0x0A])" by simp
  have h13: "LABEL_PG_CLUSTER exampleConfig \<noteq> PgtaskWorkflowID exampleConfig"
    by (simp add: exampleConfig_def)
  have k: "PgtaskWorkflowID exampleConfig = ''workflowid''"
    "PgtaskWorkflow exampleConfig = ''workflow''" "PgtaskCloneStep1 exampleConfig = ''clone-step1''"
    by (simp_all add: exampleConfig_def)
  from clone_creates_workflow_and_task [OF h1 ex_validate ex_upgraded h4 h5 h6 ex_uuid h8
      ex_new_tasks(1) ex_create_wf_empty ex_new_tasks(2) ex_create_clone_empty h13]
  show ?thesis by (simp add: ex_request ex_selector k)
qed

text \<open>
  C8 as stated fails: a workflow record left for the target by an earlier clone is not a
  conflicting task, so after a successful clone two workflow records exist for the target.
\<close>

theorem clone_leaves_two_workflow_records:
  "fst (Clone exampleConfig exampleCloneEnv memStoreOps storeStale requestAB ''pgo'' ''admin'') =
     Return \<lparr>StatusCode = Ok, StatusMsg = [], resp_TargetClusterName = ''b'',
        resp_WorkflowID = ''3f2b8c1e-6d4a-4b7e-9a40-1c2d3e4f5a6b''\<rparr> \<and>
   listPgtasks memStoreOps storeStale ''pgo'' (cloneSelector exampleConfig ''b'') = Inr [] \<and>
   length (filter (\<lambda>(ns, t). spec_TaskType t = PgtaskWorkflow exampleConfig \<and>
                     map_of (task_Labels t) (LABEL_PG_CLUSTER exampleConfig) = Some ''b'')
             (ms_tasks (fst (snd (Clone exampleConfig exampleCloneEnv memStoreOps storeStale
                                    requestAB ''pgo'' ''admin''))))) = 2"
proof -
  have c: "ms_clusters storeStale = [clusterA]" by (simp add: storeStale_def)
  have h1: "getPgcluster memStoreOps storeStale ''pgo'' (req_SourceClusterName requestAB) = Inr clusterA"
    by (simp add: ex_request ex_get_a [OF c])
  have h4: "getPgcluster memStoreOps storeStale ''pgo'' (req_TargetClusterName requestAB)
      = Inl ''pgclusters b not found''"
    by (simp add: ex_request ex_get_b [OF c])
  have h5: "listPgtasks memStoreOps storeStale ''pgo''
      (cloneSelector exampleConfig (req_TargetClusterName requestAB)) = Inr []"
    by (simp add: ex_request ex_list_stale)
  have h6: "\<forall>t \<in> set []. spec_Status t = CompletedStatus exampleConfig" by simp
  have h8: "''3f2b8c1e-6d4a-4b7e-9a40-1c2d3e4f5a6b'' @ [CHR 0x0A] \<noteq> []" by simp
  have t: "spec_TaskType staleWorkflowB = ''workflow''" "spec_TaskType newWorkflowB = ''workflow''"
    "spec_TaskType newCloneB = ''clone-step1''"
    "map_of (task_Labels staleWorkflowB) ''pg-cluster'' = Some ''b''"
    "map_of (task_Labels newWorkflowB) ''pg-cluster'' = Some ''b''"
    by (simp_all add: staleWorkflowB_def newWorkflowB_def newCloneB_def workflowTask_def Let_def
        cloneTaskCreate_def step1CloneTask_def exampleConfig_def)
  have k: "PgtaskWorkflow exampleConfig = ''workflow''" "LABEL_PG_CLUSTER exampleConfig = ''pg-cluster''"
    by (simp_all add: exampleConfig_def)
  from Clone_success_path [OF h1 ex_validate ex_upgraded h4 h5 h6 ex_uuid h8
      ex_new_tasks(1) ex_create_wf_stale ex_new_tasks(2) ex_create_clone_stale]
  show ?thesis by (simp add: ex_request ex_list_stale k t)
qed

end
